theory Spec2Isabelle
  imports Main
begin

section \<open>The autocomplete dropdown of \<open>textual_autocomplete/_autocomplete.py\<close>\<close>

text \<open>
  The module defines three things: the dataclass \<open>Candidate\<close>, the renderable
  \<open>DropdownRender\<close> (its \<open>__rich_console__\<close> and \<open>__rich_measure__\<close>), and the widget
  \<open>AutoComplete\<close> (\<open>on_mount\<close>, \<open>render\<close>, the two watch callbacks and \<open>_sync_state\<close>).
  Python strings are \<open>string\<close>, Python integers are \<open>int\<close>, and every \<open>raise\<close> or failing
  \<open>assert\<close> is a value of the type \<open>error\<close>.
\<close>

subsection \<open>Data\<close>

text \<open>The dataclass \<open>Candidate\<close>, with its four fields in declaration order.\<close>

record Candidate =
  main :: string
  left_meta :: string
  right_meta :: string
  highlight_ranges :: "(int \<times> int) list"

text \<open>
  \<open>DropdownRender.__init__\<close> stores \<open>filter\<close>, \<open>matches\<close> and \<open>highlight_index\<close>, and
  drops its fourth argument \<open>component_styles\<close>.
\<close>

record DropdownRender =
  render_filter :: string
  render_matches :: "Candidate list"
  highlight_index :: int

text \<open>
  The linked \<open>Input\<close> widget belongs to the host; only the two reactive attributes the
  module reads are kept. Input widgets are shared objects, so the widget holds a
  reference into a store of them.
\<close>

record Input =
  input_value :: string
  cursor_position :: int

type_synonym ref = nat

text \<open>The constructor argument \<open>linked_input: Input | str\<close>.\<close>

datatype linked = Handle ref | Selector string

text \<open>The bound methods handed to \<open>watch\<close> as callbacks.\<close>

datatype callback = InputCursorPositionChanged | InputValueChanged

text \<open>
  \<open>AutoCompleteError\<close> is the module's own exception, \<open>AssertionError\<close> a failed
  \<open>assert\<close>; \<open>Raised x\<close> is an exception \<open>x\<close> raised by a collaborator (the
  \<open>get_results\<close> callable, or the application's \<open>query_one\<close>).
\<close>

datatype 'x error = AutoCompleteError string | AssertionError string | Raised 'x

text \<open>
  The widget together with the part of its surroundings that its methods read or write.
  The first four fields are attributes of the widget: \<open>_linked_input\<close>, \<open>_matches\<close>,
  \<open>_input_widget\<close> and \<open>display\<close>. The others belong to the host: the store of
  \<open>Input\<close> widgets, \<open>self.screen.layers\<close>, the subscriptions registered with \<open>watch\<close>
  (object, attribute name, callback), the number of \<open>refresh()\<close> requests, the state of
  the \<open>get_results\<close> callable (a Python callable may keep state between calls), and the
  trace of the calls made to it (text, cursor, outcome).
\<close>

record ('p, 'x) world =
  linked_input :: linked
  matches :: "Candidate list"
  input_widget :: "ref option"
  display :: bool
  inputs :: "ref \<Rightarrow> Input"
  layers :: "string list"
  watchers :: "(ref \<times> string \<times> callback) list"
  refreshes :: nat
  provider :: 'p
  calls :: "(string \<times> int \<times> ('x + Candidate list)) list"

text \<open>
  \<open>get_results\<close>: called with the text and the cursor position, it raises (\<open>Inl\<close>) or
  returns a list of candidates (\<open>Inr\<close>), and moves to its next state.
\<close>

type_synonym ('p, 'x) get_results =
  "'p \<Rightarrow> string \<Rightarrow> int \<Rightarrow> ('x + Candidate list) \<times> 'p"

subsection \<open>\<open>AutoComplete\<close>\<close>

text \<open>
  \<open>AutoComplete.__init__\<close> stores the linked input, starts with no matches and with no
  input widget resolved. It does not assign \<open>display\<close>.
\<close>

definition init :: "linked \<Rightarrow> ('p, 'x) world \<Rightarrow> ('p, 'x) world" where
  "init li w = w\<lparr>linked_input := li, matches := [], input_widget := None\<rparr>"

text \<open>
  \<open>_sync_state(value, cursor_position)\<close>. The right-hand side of the first assignment is
  evaluated first: when \<open>get_results\<close> raises, nothing has been assigned and the exception
  leaves the method. Otherwise \<open>_matches\<close> is the returned list, \<open>display\<close> is
  \<open>len(self._matches) > 0 and value != ""\<close>, and a refresh is requested.
  The result is the exception that left the method, if any, and the state it left behind.
\<close>

definition sync_state ::
  "('p, 'x) get_results \<Rightarrow> ('p, 'x) world \<Rightarrow> string \<Rightarrow> int \<Rightarrow> 'x error option \<times> ('p, 'x) world" where
  "sync_state get_results w val cur =
     (case get_results (provider w) val cur of
        (Inl x, p) \<Rightarrow>
          (Some (Raised x), w\<lparr>provider := p, calls := calls w @ [(val, cur, Inl x)]\<rparr>)
      | (Inr ms, p) \<Rightarrow>
          (None, w\<lparr>provider := p, calls := calls w @ [(val, cur, Inr ms)],
                    matches := ms,
                    display := (length ms > 0 \<and> val \<noteq> []),
                    refreshes := refreshes w + 1\<rparr>))"

text \<open>
  The two watch callbacks: each asserts that the input widget is set, reads the other
  attribute from it, and syncs.
\<close>

definition input_cursor_position_changed ::
  "('p, 'x) get_results \<Rightarrow> ('p, 'x) world \<Rightarrow> int \<Rightarrow> 'x error option \<times> ('p, 'x) world" where
  "input_cursor_position_changed get_results w cur =
     (case input_widget w of
        None \<Rightarrow> (Some (AssertionError ''input_widget set in on_mount''), w)
      | Some r \<Rightarrow> sync_state get_results w (input_value (inputs w r)) cur)"

definition input_value_changed ::
  "('p, 'x) get_results \<Rightarrow> ('p, 'x) world \<Rightarrow> string \<Rightarrow> 'x error option \<times> ('p, 'x) world" where
  "input_value_changed get_results w val =
     (case input_widget w of
        None \<Rightarrow> (Some (AssertionError ''input_widget set in on_mount''), w)
      | Some r \<Rightarrow> sync_state get_results w val (cursor_position (inputs w r)))"

text \<open>
  The host's \<open>watch(obj, attribute_name, callback)\<close> registers the callback. Whether it
  also checks the watchers of that attribute at once, calling the new callback with the
  attribute's current value, depends on the host and its version, so it is the parameter
  \<open>check_watchers\<close>, by attribute name. A callback that raises ends \<open>watch\<close> with its
  exception. The cursor callback is the one registered for \<open>cursor_position\<close> and the
  value callback the one registered for \<open>value\<close>.
\<close>

fun invoke ::
  "('p, 'x) get_results \<Rightarrow> ('p, 'x) world \<Rightarrow> ref \<Rightarrow> callback \<Rightarrow> 'x error option \<times> ('p, 'x) world" where
  "invoke get_results w obj InputCursorPositionChanged =
     input_cursor_position_changed get_results w (cursor_position (inputs w obj))"
| "invoke get_results w obj InputValueChanged =
     input_value_changed get_results w (input_value (inputs w obj))"

definition watch ::
  "(string \<Rightarrow> bool) \<Rightarrow> ('p, 'x) get_results \<Rightarrow> ('p, 'x) world \<Rightarrow> ref \<Rightarrow> string \<Rightarrow> callback
     \<Rightarrow> 'x error option \<times> ('p, 'x) world" where
  "watch check_watchers get_results w obj attribute_name cb =
     (let w' = w\<lparr>watchers := watchers w @ [(obj, attribute_name, cb)]\<rparr>
      in if check_watchers attribute_name then invoke get_results w' obj cb else (None, w'))"

text \<open>
  \<open>on_mount\<close>: resolve the input (a string is looked up with the application's
  \<open>query_one\<close>, which raises when the selector does not resolve to an \<open>Input\<close>; anything
  else is the input itself), check the layer, watch the input's \<open>cursor_position\<close> and
  then its \<open>value\<close>, and sync with the input's value and cursor position. An exception
  at any step ends the method there.
\<close>

definition resolve_input :: "(string \<Rightarrow> 'x + ref) \<Rightarrow> linked \<Rightarrow> 'x + ref" where
  "resolve_input query_one li = (case li of Selector s \<Rightarrow> query_one s | Handle r \<Rightarrow> Inr r)"

definition on_mount ::
  "('p, 'x) get_results \<Rightarrow> (string \<Rightarrow> 'x + ref) \<Rightarrow> (string \<Rightarrow> bool) \<Rightarrow> ('p, 'x) world
     \<Rightarrow> 'x error option \<times> ('p, 'x) world" where
  "on_mount get_results query_one check_watchers w =
     (case resolve_input query_one (linked_input w) of
        Inl x \<Rightarrow> (Some (Raised x), w)
      | Inr r \<Rightarrow>
          (let w1 = w\<lparr>input_widget := Some r\<rparr> in
           if ''textual-autocomplete'' \<notin> set (layers w1)
           then (Some (AutoCompleteError ''Screen must have a layer called `textual-autocomplete`.''), w1)
           else
             (case watch check_watchers get_results w1 r ''cursor_position'' InputCursorPositionChanged of
                (Some e, w2) \<Rightarrow> (Some e, w2)
              | (None, w2) \<Rightarrow>
                  (case watch check_watchers get_results w2 r ''value'' InputValueChanged of
                     (Some e, w3) \<Rightarrow> (Some e, w3)
                   | (None, w3) \<Rightarrow>
                       sync_state get_results w3
                         (input_value (inputs w3 r)) (cursor_position (inputs w3 r))))))"

text \<open>
  \<open>render\<close>: the filter is read from the input widget at render time, the matches are
  \<open>_matches\<close>, and \<open>highlight_index\<close> is the constant 0.
\<close>

definition render :: "('p, 'x) world \<Rightarrow> 'x error + DropdownRender" where
  "render w =
     (case input_widget w of
        None \<Rightarrow> Inl (AssertionError ''input_widget set in on_mount'')
      | Some r \<Rightarrow>
          Inr \<lparr>render_filter = input_value (inputs w r), render_matches = matches w,
               highlight_index = 0\<rparr>)"

subsection \<open>The part of \<open>rich\<close> that \<open>DropdownRender\<close> calls\<close>

text \<open>
  \<open>rich\<close> is a library, not part of this module. A \<open>rich.text.Text\<close> is kept as its plain
  string and its list of spans \<open>Span(start, end, style)\<close>; a style is the string naming
  it. Every \<open>Text\<close> built by the renderer has the empty base style, so that field is left
  out.
\<close>

datatype Span = Span nat nat string

record Text =
  plain :: string
  spans :: "Span list"

text \<open>
  \<open>strip_control_codes\<close>: the constructor and \<open>append\<close> remove bell, backspace,
  vertical tab, form feed and carriage return from the string they are given.
\<close>

definition strip_control_codes :: "string \<Rightarrow> string" where
  "strip_control_codes s =
     filter (\<lambda>c. c \<notin> set [CHR 0x07, CHR 0x08, CHR 0x0B, CHR 0x0C, CHR 0x0D]) s"

text \<open>The constructor call \<open>Text(s)\<close>.\<close>

definition new_Text :: "string \<Rightarrow> Text" where
  "new_Text s = \<lparr>plain = strip_control_codes s, spans = []\<rparr>"

text \<open>
  \<open>re.finditer(re.escape(word), s)\<close>: the matches of a literal word, scanned from left to
  right without overlap, as (start, end) pairs. The second argument is the rest of the
  string and the third the index where it starts. The empty word matches, empty, at
  every index up to and including the length.
\<close>

fun finditer :: "string \<Rightarrow> string \<Rightarrow> nat \<Rightarrow> (nat \<times> nat) list" where
  "finditer word [] pos = (if word = [] then [(pos, pos)] else [])"
| "finditer word (c # cs) pos =
     (if word = [] then (pos, pos) # finditer word cs (pos + 1)
      else if take (length word) (c # cs) = word
        then (pos, pos + length word) # finditer word (drop (length word - 1) cs) (pos + length word)
        else finditer word cs (pos + 1))"

text \<open>
  \<open>Text.highlight_words([word], style)\<close>, for the one-word list the renderer passes, case
  sensitive as by default: one span per match is appended.
\<close>

definition highlight_words :: "string \<Rightarrow> string \<Rightarrow> Text \<Rightarrow> Text" where
  "highlight_words word style t =
     t\<lparr>spans := spans t @ map (\<lambda>(a, b). Span a b style) (finditer word (plain t) 0)\<rparr>"

text \<open>
  \<open>sep.join(lines)\<close>: when the separator is not empty it is put between the lines
  (\<open>iter_text\<close>); the texts are then concatenated, each one's spans moved by the offset at
  which it starts.
\<close>

fun iter_text :: "Text \<Rightarrow> Text list \<Rightarrow> Text list" where
  "iter_text sep [] = []"
| "iter_text sep [line] = [line]"
| "iter_text sep (line # lines) = line # sep # iter_text sep lines"

fun shift :: "nat \<Rightarrow> Span \<Rightarrow> Span" where
  "shift offset (Span a b style) = Span (offset + a) (offset + b) style"

fun join_loop :: "Text list \<Rightarrow> nat \<Rightarrow> Text \<Rightarrow> Text" where
  "join_loop [] offset new_text = new_text"
| "join_loop (t # ts) offset new_text =
     join_loop ts (offset + length (plain t))
       (new_text\<lparr>plain := plain new_text @ plain t,
                  spans := spans new_text @ map (shift offset) (spans t)\<rparr>)"

definition join :: "Text \<Rightarrow> Text list \<Rightarrow> Text" where
  "join sep lines =
     join_loop (if plain sep \<noteq> [] then iter_text sep lines else lines) 0
       \<lparr>plain = [], spans = []\<rparr>"

text \<open>\<open>Text.append(s)\<close> for a string and no style: nothing happens for the empty string.\<close>

definition append_str :: "Text \<Rightarrow> string \<Rightarrow> Text" where
  "append_str t s = (if length s > 0 then t\<lparr>plain := plain t @ strip_control_codes s\<rparr> else t)"

text \<open>\<open>rich.measure.Measurement\<close>, a named tuple \<open>(minimum, maximum)\<close>.\<close>

record Measurement =
  minimum :: int
  maximum :: int

subsection \<open>\<open>DropdownRender\<close>\<close>

text \<open>
  \<open>__rich_console__\<close>: for each match a \<open>Text\<close> of its \<open>main\<close>, with the filter
  highlighted in the style \<open>on yellow\<close>; the lines are joined by a newline and a newline
  is appended. No other field of the candidate is read.
\<close>

definition rich_console :: "DropdownRender \<Rightarrow> Text" where
  "rich_console r =
     append_str
       (join (new_Text [CHR 0x0A])
          (map (\<lambda>m. highlight_words (render_filter r) ''on yellow'' (new_Text (main m)))
             (render_matches r)))
       [CHR 0x0A]"

text \<open>
  \<open>__rich_measure__\<close>. The argument \<open>get\<close> is \<open>partial(Measurement.get, console, options)\<close>,
  the library's measurement of a string under the current console; \<open>get(x)[1]\<close> is its
  maximum. The loop keeps the largest sum of the three columns' widths, starting from 0,
  and the result is \<open>Measurement(10, maximum)\<close>.
\<close>

fun measure_loop :: "(string \<Rightarrow> Measurement) \<Rightarrow> Candidate list \<Rightarrow> int \<Rightarrow> int" where
  "measure_loop get [] mx = mx"
| "measure_loop get (m # ms) mx =
     measure_loop get ms
       (max (maximum (get (left_meta m)) + maximum (get (main m)) + maximum (get (right_meta m))) mx)"

definition rich_measure :: "(string \<Rightarrow> Measurement) \<Rightarrow> DropdownRender \<Rightarrow> Measurement" where
  "rich_measure get r = \<lparr>minimum = 10, maximum = measure_loop get (render_matches r) 0\<rparr>"

subsection \<open>Runs of syncs\<close>



subsection \<open>Vocabulary of the rendering properties\<close>

text \<open>The word \<open>f\<close> occurs in \<open>m\<close> at index \<open>i\<close>.\<close>

definition occurs_at :: "string \<Rightarrow> string \<Rightarrow> nat \<Rightarrow> bool" where
  "occurs_at f m i = (i + length f \<le> length m \<and> take (length f) (drop i m) = f)"

text \<open>Index \<open>p\<close> of a text lies in a span of the given style.\<close>

fun covers :: "string \<Rightarrow> nat \<Rightarrow> Span \<Rightarrow> bool" where
  "covers style p (Span a b style') = (a \<le> p \<and> p < b \<and> style' = style)"

definition styled :: "Text \<Rightarrow> string \<Rightarrow> nat \<Rightarrow> bool" where
  "styled t style p = list_ex (covers style p) (spans t)"

text \<open>
  The text shown for a candidate, and the index at which row \<open>k\<close> starts in the rendered
  block: every earlier row takes its text and one newline.
\<close>

definition row_text :: "Candidate \<Rightarrow> string" where
  "row_text m = strip_control_codes (main m)"

definition row_offset :: "Candidate list \<Rightarrow> nat \<Rightarrow> nat" where
  "row_offset ms k = sum_list (map (\<lambda>m. length (row_text m) + 1) (take k ms))"

text \<open>The sum of the three columns' widths for one candidate, as the measuring loop forms it.\<close>

definition combined_width :: "(string \<Rightarrow> Measurement) \<Rightarrow> Candidate \<Rightarrow> int" where
  "combined_width get m =
     maximum (get (left_meta m)) + maximum (get (main m)) + maximum (get (right_meta m))"

subsection \<open>Example inputs\<close>

text \<open>
  A provider that counts its calls, raises on the text \<open>boom\<close> and otherwise returns the
  candidates whose \<open>main\<close> starts with the text; a lookup that knows one selector, of the
  input with reference 1; a screen with the overlay layer, where that input holds \<open>hel\<close>
  with the cursor at 3 and every other input holds \<open>other\<close> with the cursor at 0; and a
  measurement of one cell per character.
\<close>

definition demo_candidates :: "Candidate list" where
  "demo_candidates =
     [\<lparr>main = ''hello'', left_meta = [], right_meta = [], highlight_ranges = []\<rparr>,
      \<lparr>main = ''help'', left_meta = [], right_meta = [], highlight_ranges = []\<rparr>,
      \<lparr>main = ''world'', left_meta = [], right_meta = [], highlight_ranges = []\<rparr>]"

definition demo_get_results :: "(nat, string) get_results" where
  "demo_get_results n val cur =
     (if val = ''boom'' then (Inl ''RuntimeError'', n + 1)
      else (Inr (filter (\<lambda>c. take (length val) (main c) = val) demo_candidates), n + 1))"

definition demo_query_one :: "string \<Rightarrow> string + ref" where
  "demo_query_one s = (if s = ''#search'' then Inr 1 else Inl ''NoMatches'')"

definition demo_world :: "(nat, string) world" where
  "demo_world =
     \<lparr>linked_input = Selector ''#search'', matches = [], input_widget = None, display = False,
      inputs = (\<lambda>r. if r = 1 then \<lparr>input_value = ''hel'', cursor_position = 3\<rparr>
                     else \<lparr>input_value = ''other'', cursor_position = 0\<rparr>),
      layers = [''default'', ''textual-autocomplete''], watchers = [], refreshes = 0,
      provider = 0, calls = []\<rparr>"

definition demo_get :: "string \<Rightarrow> Measurement" where
  "demo_get s = \<lparr>minimum = int (length s), maximum = int (length s)\<rparr>"

section \<open>Syncing\<close>

text \<open>The two ways out of \<open>_sync_state\<close>.\<close>

lemma sync_state_returns:
  "get_results (provider w) val cur = (Inr ms, p) \<Longrightarrow>
   sync_state get_results w val cur =
     (None, w\<lparr>provider := p, calls := calls w @ [(val, cur, Inr ms)], matches := ms,
               display := (ms \<noteq> [] \<and> val \<noteq> []), refreshes := refreshes w + 1\<rparr>)"
  by (simp add: sync_state_def)

lemma sync_state_raises:
  "get_results (provider w) val cur = (Inl x, p) \<Longrightarrow>
   sync_state get_results w val cur =
     (Some (Raised x), w\<lparr>provider := p, calls := calls w @ [(val, cur, Inl x)]\<rparr>)"
  by (simp add: sync_state_def)

lemma sync_state_raises_fst:
  assumes "fst (get_results (provider w) val cur) = Inl x"
  shows "sync_state get_results w val cur =
     (Some (Raised x), w\<lparr>provider := snd (get_results (provider w) val cur),
                         calls := calls w @ [(val, cur, Inl x)]\<rparr>)"
  using assms sync_state_raises [of get_results w val cur x "snd (get_results (provider w) val cur)"]
  by (cases "get_results (provider w) val cur") simp





text \<open>
  C1. After a sync in which the provider returns, the display flag is true exactly when
  the returned list is non-empty and the synced text is non-empty. In particular an empty
  text hides the dropdown whatever the provider returns, and an empty result hides it
  whatever the text.
\<close>

theorem sync_state_display:
  assumes "fst (get_results (provider w) val cur) = Inr ms"
  shows "fst (sync_state get_results w val cur) = None
       \<and> display (snd (sync_state get_results w val cur)) = (ms \<noteq> [] \<and> val \<noteq> [])
       \<and> (val = [] \<longrightarrow> \<not> display (snd (sync_state get_results w val cur)))
       \<and> (ms = [] \<longrightarrow> \<not> display (snd (sync_state get_results w val cur)))"
proof -
  obtain p where "get_results (provider w) val cur = (Inr ms, p)"
    using assms by (cases "get_results (provider w) val cur") simp
  then show ?thesis
    using sync_state_returns [of get_results w val cur ms p] by auto
qed

text \<open>
  The three cases of the specification: the text \<open>hel\<close> with two matches is shown; the
  empty text with three matches is hidden; a text with no match is hidden. The dropdown
  was showing before the last two syncs.
\<close>

theorem sync_state_display_witness:
  "fst (demo_get_results (provider demo_world) ''hel'' 3) = Inr (take 2 demo_candidates)
   \<and> display (snd (sync_state demo_get_results demo_world ''hel'' 3))
   \<and> fst (demo_get_results 0 [] 0) = Inr demo_candidates
   \<and> \<not> display (snd (sync_state demo_get_results (demo_world\<lparr>display := True\<rparr>) [] 0))
   \<and> fst (demo_get_results 0 ''xyz'' 3) = Inr []
   \<and> \<not> display (snd (sync_state demo_get_results (demo_world\<lparr>display := True\<rparr>) ''xyz'' 3))"
  using sync_state_display [of demo_get_results demo_world "''hel''" 3 "take 2 demo_candidates"]
    sync_state_display [of demo_get_results "demo_world\<lparr>display := True\<rparr>" "[]" 0 demo_candidates]
    sync_state_display [of demo_get_results "demo_world\<lparr>display := True\<rparr>" "''xyz''" 3 "[]"]
  by (simp add: demo_get_results_def demo_world_def demo_candidates_def)




section \<open>Provider errors\<close>

text \<open>
  C7. When the provider raises during a sync, the exception leaves \<open>_sync_state\<close>, and
  the two callbacks that called it, unchanged: it is the result of the call. The provider
  was called once and not again, no refresh was requested, and the matches and the
  display flag are what they were before the call.
\<close>

theorem sync_state_provider_raises:
  assumes "fst (get_results (provider w) val cur) = Inl x"
  shows "fst (sync_state get_results w val cur) = Some (Raised x)
       \<and> matches (snd (sync_state get_results w val cur)) = matches w
       \<and> display (snd (sync_state get_results w val cur)) = display w
       \<and> refreshes (snd (sync_state get_results w val cur)) = refreshes w
       \<and> calls (snd (sync_state get_results w val cur)) = calls w @ [(val, cur, Inl x)]
       \<and> (\<forall>r. input_widget w = Some r \<and> cursor_position (inputs w r) = cur \<longrightarrow>
             fst (input_value_changed get_results w val) = Some (Raised x))
       \<and> (\<forall>r. input_widget w = Some r \<and> input_value (inputs w r) = val \<longrightarrow>
             fst (input_cursor_position_changed get_results w cur) = Some (Raised x))"
  using assms sync_state_raises_fst [of get_results w val cur x]
  by (auto simp: input_value_changed_def input_cursor_position_changed_def)

text \<open>
  After a sync that showed two matches, a sync of \<open>boom\<close> raises; the two matches and the
  display flag stay.
\<close>

theorem sync_state_provider_raises_witness:
  "fst (demo_get_results (provider (snd (sync_state demo_get_results demo_world ''hel'' 3))) ''boom'' 4)
     = Inl ''RuntimeError''
   \<and> fst (sync_state demo_get_results (snd (sync_state demo_get_results demo_world ''hel'' 3)) ''boom'' 4)
     = Some (Raised ''RuntimeError'')
   \<and> matches (snd (sync_state demo_get_results (snd (sync_state demo_get_results demo_world ''hel'' 3)) ''boom'' 4))
     = take 2 demo_candidates
   \<and> display (snd (sync_state demo_get_results (snd (sync_state demo_get_results demo_world ''hel'' 3)) ''boom'' 4))"
  using sync_state_provider_raises [of demo_get_results
      "snd (sync_state demo_get_results demo_world ''hel'' 3)" "''boom''" 4 "''RuntimeError''"]
  by (simp add: demo_get_results_def demo_world_def demo_candidates_def sync_state_def)

section \<open>Mounting\<close>

text \<open>The two early ways out of \<open>on_mount\<close>, and which input a linked input resolves to.\<close>

lemma on_mount_unresolved:
  "resolve_input query_one (linked_input w) = Inl x \<Longrightarrow>
   on_mount get_results query_one check_watchers w = (Some (Raised x), w)"
  by (simp add: on_mount_def)

lemma on_mount_no_layer:
  "resolve_input query_one (linked_input w) = Inr r \<Longrightarrow>
   ''textual-autocomplete'' \<notin> set (layers w) \<Longrightarrow>
   on_mount get_results query_one check_watchers w =
     (Some (AutoCompleteError ''Screen must have a layer called `textual-autocomplete`.''),
      w\<lparr>input_widget := Some r\<rparr>)"
  by (simp add: on_mount_def)

lemma resolve_input_linked:
  "(resolve_input query_one (linked_input w) = Inr r) =
   (linked_input w = Handle r \<or> (\<exists>s. linked_input w = Selector s \<and> query_one s = Inr r))"
  by (cases "linked_input w") (auto simp: resolve_input_def)

text \<open>
  With the input widget set, watching either attribute registers the callback and, where
  the host checks watchers at registration, syncs with the input's value and cursor
  position.
\<close>

lemma watch_registered:
  assumes "input_widget w = Some r"
    and "(attribute_name, cb) = (''cursor_position'', InputCursorPositionChanged)
         \<or> (attribute_name, cb) = (''value'', InputValueChanged)"
  shows "watch check_watchers get_results w r attribute_name cb =
     (if check_watchers attribute_name
      then sync_state get_results (w\<lparr>watchers := watchers w @ [(r, attribute_name, cb)]\<rparr>)
             (input_value (inputs w r)) (cursor_position (inputs w r))
      else (None, w\<lparr>watchers := watchers w @ [(r, attribute_name, cb)]\<rparr>))"
  using assms
  by (auto simp: watch_def Let_def input_cursor_position_changed_def input_value_changed_def)

text \<open>
  C8. When the screen has no layer \<open>textual-autocomplete\<close>, \<open>on_mount\<close> ends with an
  exception; when the linked input resolves, that exception is the \<open>AutoCompleteError\<close>
  of the layer check (a selector that does not resolve raises earlier, from the lookup).
  Either way no subscription has been registered, the provider has not been called, and
  the matches, the display flag and the refresh count are untouched: no initial sync.
  This holds whatever the host's \<open>watch\<close> does at registration.
\<close>

theorem on_mount_missing_layer:
  assumes "''textual-autocomplete'' \<notin> set (layers w)"
  shows "fst (on_mount get_results query_one check_watchers w) \<noteq> None
       \<and> watchers (snd (on_mount get_results query_one check_watchers w)) = watchers w
       \<and> calls (snd (on_mount get_results query_one check_watchers w)) = calls w
       \<and> matches (snd (on_mount get_results query_one check_watchers w)) = matches w
       \<and> display (snd (on_mount get_results query_one check_watchers w)) = display w
       \<and> refreshes (snd (on_mount get_results query_one check_watchers w)) = refreshes w
       \<and> (\<forall>r. resolve_input query_one (linked_input w) = Inr r \<longrightarrow>
             fst (on_mount get_results query_one check_watchers w) =
               Some (AutoCompleteError ''Screen must have a layer called `textual-autocomplete`.''))"
proof (cases "resolve_input query_one (linked_input w)")
  case (Inl x)
  then show ?thesis by (simp add: on_mount_unresolved)
next
  case (Inr r)
  with assms show ?thesis by (simp add: on_mount_no_layer)
qed

text \<open>The example screen with only the layer \<open>default\<close>.\<close>

theorem on_mount_missing_layer_witness:
  "''textual-autocomplete'' \<notin> set (layers (demo_world\<lparr>layers := [''default'']\<rparr>))
   \<and> on_mount demo_get_results demo_query_one (\<lambda>a. True) (demo_world\<lparr>layers := [''default'']\<rparr>) =
       (Some (AutoCompleteError ''Screen must have a layer called `textual-autocomplete`.''),
        demo_world\<lparr>layers := [''default''], input_widget := Some 1\<rparr>)
   \<and> watchers (snd (on_mount demo_get_results demo_query_one (\<lambda>a. True)
        (demo_world\<lparr>layers := [''default'']\<rparr>))) = []
   \<and> calls (snd (on_mount demo_get_results demo_query_one (\<lambda>a. True)
        (demo_world\<lparr>layers := [''default'']\<rparr>))) = []"
  using on_mount_missing_layer [of "demo_world\<lparr>layers := [''default'']\<rparr>" demo_get_results
      demo_query_one "\<lambda>a. True"]
  by (simp add: demo_world_def demo_query_one_def on_mount_def resolve_input_def)

text \<open>
  C9, as the code has it. Let the layer be present and the linked input be \<open>r\<close>, given
  directly or found by the lookup. When the provider returns for that input's value and
  cursor position, the mount succeeds. On every successful mount both callbacks are
  registered on \<open>r\<close>; the provider has been called once by the sync that ends
  \<open>on_mount\<close> and once more for each registration at which the host checks watchers,
  every time with the input's current value and cursor position; the matches are the list
  the last of these calls returned, the display flag is set from them and the value, and
  the renderer is given the input's value as the filter. The state after mounting
  reflects the text that was already there.
\<close>

theorem on_mount_initial_sync:
  assumes "''textual-autocomplete'' \<in> set (layers w)"
    and "linked_input w = Handle r \<or> (\<exists>s. linked_input w = Selector s \<and> query_one s = Inr r)"
  shows "((\<forall>p. \<exists>ms. fst (get_results p (input_value (inputs w r)) (cursor_position (inputs w r))) = Inr ms) \<longrightarrow>
            fst (on_mount get_results query_one check_watchers w) = None)
       \<and> (fst (on_mount get_results query_one check_watchers w) = None \<longrightarrow>
            input_widget (snd (on_mount get_results query_one check_watchers w)) = Some r
          \<and> watchers (snd (on_mount get_results query_one check_watchers w)) =
              watchers w @ [(r, ''cursor_position'', InputCursorPositionChanged),
                            (r, ''value'', InputValueChanged)]
          \<and> take (length (calls w)) (calls (snd (on_mount get_results query_one check_watchers w))) = calls w
          \<and> length (calls (snd (on_mount get_results query_one check_watchers w))) =
              length (calls w) + 1 + (if check_watchers ''cursor_position'' then 1 else 0)
                + (if check_watchers ''value'' then 1 else 0)
          \<and> (\<forall>c \<in> set (drop (length (calls w)) (calls (snd (on_mount get_results query_one check_watchers w)))).
                fst c = input_value (inputs w r) \<and> fst (snd c) = cursor_position (inputs w r))
          \<and> last (calls (snd (on_mount get_results query_one check_watchers w))) =
              (input_value (inputs w r), cursor_position (inputs w r),
               Inr (matches (snd (on_mount get_results query_one check_watchers w))))
          \<and> display (snd (on_mount get_results query_one check_watchers w)) =
              (matches (snd (on_mount get_results query_one check_watchers w)) \<noteq> []
               \<and> input_value (inputs w r) \<noteq> [])
          \<and> render (snd (on_mount get_results query_one check_watchers w)) =
              Inr \<lparr>render_filter = input_value (inputs w r),
                   render_matches = matches (snd (on_mount get_results query_one check_watchers w)),
                   highlight_index = 0\<rparr>)"
proof -
  let ?val = "input_value (inputs w r)" and ?cur = "cursor_position (inputs w r)"
  let ?m = "on_mount get_results query_one check_watchers w"
  have res: "resolve_input query_one (linked_input w) = Inr r"
    using assms(2) by (simp add: resolve_input_linked)
  have returns: "fst ?m = None"
    if all: "\<forall>p. \<exists>ms. fst (get_results p ?val ?cur) = Inr ms"
  proof -
    have no_raise: "get_results p ?val ?cur \<noteq> (Inl x, p')" for p x p'
      using all by (metis fst_conv sum.distinct(1))
    show ?thesis
      using assms(1) res
      by (auto simp: on_mount_def watch_def Let_def input_cursor_position_changed_def
            input_value_changed_def sync_state_def no_raise
          split: prod.splits sum.splits option.splits)
  qed
  have after: "input_widget (snd ?m) = Some r
          \<and> watchers (snd ?m) =
              watchers w @ [(r, ''cursor_position'', InputCursorPositionChanged),
                            (r, ''value'', InputValueChanged)]
          \<and> take (length (calls w)) (calls (snd ?m)) = calls w
          \<and> length (calls (snd ?m)) =
              length (calls w) + 1 + (if check_watchers ''cursor_position'' then 1 else 0)
                + (if check_watchers ''value'' then 1 else 0)
          \<and> (\<forall>c \<in> set (drop (length (calls w)) (calls (snd ?m))).
                fst c = ?val \<and> fst (snd c) = ?cur)
          \<and> last (calls (snd ?m)) = (?val, ?cur, Inr (matches (snd ?m)))
          \<and> display (snd ?m) = (matches (snd ?m) \<noteq> [] \<and> ?val \<noteq> [])
          \<and> render (snd ?m) =
              Inr \<lparr>render_filter = ?val, render_matches = matches (snd ?m), highlight_index = 0\<rparr>"
    if ok: "fst ?m = None"
    using assms(1) res ok
    by (cases "check_watchers ''cursor_position''"; cases "check_watchers ''value''")
       (auto simp: on_mount_def watch_def Let_def input_cursor_position_changed_def
          input_value_changed_def sync_state_def render_def
          split: prod.splits sum.splits option.splits)
  from returns after show ?thesis by blast
qed

text \<open>
  The linked input holds \<open>hel\<close> at cursor 3 and the provider returns \<open>hello\<close> and
  \<open>help\<close>. With a host that only registers, the mount makes one call; both are matches,
  the dropdown is shown, and both rendered lines highlight \<open>hel\<close>. With a host that
  checks watchers at each registration the matches and the display flag are the same.
\<close>

theorem on_mount_initial_sync_witness:
  "''textual-autocomplete'' \<in> set (layers demo_world)
   \<and> linked_input demo_world = Selector ''#search'' \<and> demo_query_one ''#search'' = Inr 1
   \<and> inputs demo_world 1 = \<lparr>input_value = ''hel'', cursor_position = 3\<rparr>
   \<and> fst (on_mount demo_get_results demo_query_one (\<lambda>a. False) demo_world) = None
   \<and> calls (snd (on_mount demo_get_results demo_query_one (\<lambda>a. False) demo_world)) =
       [(''hel'', 3, Inr (take 2 demo_candidates))]
   \<and> watchers (snd (on_mount demo_get_results demo_query_one (\<lambda>a. False) demo_world)) =
       [(1, ''cursor_position'', InputCursorPositionChanged), (1, ''value'', InputValueChanged)]
   \<and> matches (snd (on_mount demo_get_results demo_query_one (\<lambda>a. False) demo_world)) =
       take 2 demo_candidates
   \<and> display (snd (on_mount demo_get_results demo_query_one (\<lambda>a. False) demo_world))
   \<and> map_sum id rich_console
       (render (snd (on_mount demo_get_results demo_query_one (\<lambda>a. False) demo_world))) =
       Inr \<lparr>plain = ''hello'' @ [CHR 0x0A] @ ''help'' @ [CHR 0x0A],
            spans = [Span 0 3 ''on yellow'', Span 6 9 ''on yellow'']\<rparr>
   \<and> matches (snd (on_mount demo_get_results demo_query_one (\<lambda>a. True) demo_world)) =
       take 2 demo_candidates
   \<and> display (snd (on_mount demo_get_results demo_query_one (\<lambda>a. True) demo_world))"
  using on_mount_initial_sync [of demo_world 1 demo_query_one demo_get_results "\<lambda>a. False"]
    on_mount_initial_sync [of demo_world 1 demo_query_one demo_get_results "\<lambda>a. True"]
  by (simp add: demo_world_def demo_query_one_def demo_get_results_def demo_candidates_def
      on_mount_def watch_def input_cursor_position_changed_def input_value_changed_def
      sync_state_def render_def
      resolve_input_def rich_console_def join_def new_Text_def highlight_words_def
      append_str_def strip_control_codes_def)

text \<open>
  C9, as the claim states it, fails for the number of syncs: with a host that checks
  watchers when \<open>cursor_position\<close> is watched, a successful mount calls the provider
  twice, and with one that checks them at both registrations, three times.
\<close>

theorem on_mount_sync_count_counterexample:
  "fst (on_mount demo_get_results demo_query_one (\<lambda>a. a = ''cursor_position'') demo_world) = None
   \<and> calls (snd (on_mount demo_get_results demo_query_one (\<lambda>a. a = ''cursor_position'') demo_world)) =
       [(''hel'', 3, Inr (take 2 demo_candidates)), (''hel'', 3, Inr (take 2 demo_candidates))]
   \<and> fst (on_mount demo_get_results demo_query_one (\<lambda>a. True) demo_world) = None
   \<and> length (calls (snd (on_mount demo_get_results demo_query_one (\<lambda>a. True) demo_world))) = 3"
  by (simp add: demo_world_def demo_query_one_def demo_get_results_def demo_candidates_def
      on_mount_def watch_def input_cursor_position_changed_def input_value_changed_def
      sync_state_def resolve_input_def)

section \<open>Rendering\<close>

subsection \<open>Occurrences and the scan\<close>

lemma take_eq_length:
  assumes "take (length word) s = word"
  shows "length word \<le> length s"
proof -
  from assms have "length (take (length word) s) = length word" by simp
  then show ?thesis by simp
qed

lemma occurs_at_iff:
  "word \<noteq> [] \<Longrightarrow> occurs_at word s i = (take (length word) (drop i s) = word)"
  using take_eq_length [of word "drop i s"] by (cases word) (auto simp: occurs_at_def)

lemma occurs_at_drop:
  "word \<noteq> [] \<Longrightarrow> occurs_at word (drop n s) j = occurs_at word s (n + j)"
  by (simp add: occurs_at_iff add.commute)

lemma occurs_at_Cons:
  "occurs_at word (c # cs) (Suc j) = occurs_at word cs j"
  by (simp add: occurs_at_def)

lemma occurs_at_0:
  "occurs_at word s 0 = (take (length word) s = word)"
  using take_eq_length [of word s] by (auto simp: occurs_at_def)

text \<open>
  The scan is from left to right and without overlap: an occurrence of a non-empty word
  is a match itself or starts inside a match, which is an earlier occurrence.
\<close>

lemma finditer_covers:
  "word \<noteq> [] \<Longrightarrow> occurs_at word s i \<Longrightarrow>
   \<exists>j\<le>i. i < j + length word \<and> occurs_at word s j
        \<and> (pos + j, pos + j + length word) \<in> set (finditer word s pos)"
proof (induction word s pos arbitrary: i rule: finditer.induct)
  case (1 word pos)
  then show ?case by (simp add: occurs_at_def)
next
  case (2 word c cs pos)
  let ?n = "length word"
  have n: "0 < ?n" using "2.prems" by simp
  show ?case
  proof (cases "take ?n (c # cs) = word")
    case True
    then have here: "occurs_at word (c # cs) 0" by (simp add: occurs_at_0)
    have fi: "finditer word (c # cs) pos =
        (pos, pos + ?n) # finditer word (drop (?n - 1) cs) (pos + ?n)"
      using True "2.prems" by simp
    show ?thesis
    proof (cases "i < ?n")
      case True
      show ?thesis
      proof (intro exI [of _ 0] conjI)
        show "0 \<le> i" by simp
        show "i < 0 + ?n" using True by simp
        show "occurs_at word (c # cs) 0" by (rule here)
        show "(pos + 0, pos + 0 + ?n) \<in> set (finditer word (c # cs) pos)"
          by (subst fi) simp
      qed
    next
      case False
      have dr: "drop (?n - 1) cs = drop ?n (c # cs)"
        using n by (cases ?n) simp_all
      from False have i: "i = ?n + (i - ?n)" by simp
      have "occurs_at word (drop (?n - 1) cs) (i - ?n)"
        using "2.prems" i by (metis dr occurs_at_drop)
      from "2.IH"(2) [OF "2.prems"(1) True "2.prems"(1) this]
      obtain j where j: "j \<le> i - ?n" "i - ?n < j + ?n" "occurs_at word (drop (?n - 1) cs) j"
        "(pos + ?n + j, pos + ?n + j + ?n) \<in> set (finditer word (drop (?n - 1) cs) (pos + ?n))"
        by blast
      show ?thesis
      proof (intro exI [of _ "?n + j"] conjI)
        show "?n + j \<le> i" using j(1) False by arith
        show "i < ?n + j + ?n" using j(2) False by arith
        show "occurs_at word (c # cs) (?n + j)"
          using j(3) "2.prems"(1) occurs_at_drop [of word ?n "c # cs" j] unfolding dr by blast
        show "(pos + (?n + j), pos + (?n + j) + ?n) \<in> set (finditer word (c # cs) pos)"
          using j(4) by (subst fi) (simp add: add.assoc)
      qed
    qed
  next
    case False
    then have "\<not> occurs_at word (c # cs) 0" by (simp add: occurs_at_0)
    with "2.prems" obtain i' where i': "i = Suc i'" by (cases i) auto
    with "2.prems" have "occurs_at word cs i'" by (simp add: occurs_at_Cons)
    from "2.IH"(3) [OF "2.prems"(1) False "2.prems"(1) this]
    obtain j where j: "j \<le> i'" "i' < j + ?n" "occurs_at word cs j"
      "(pos + 1 + j, pos + 1 + j + ?n) \<in> set (finditer word cs (pos + 1))"
      by blast
    have fi: "finditer word (c # cs) pos = finditer word cs (pos + 1)"
      using False "2.prems" by simp
    show ?thesis
    proof (intro exI [of _ "Suc j"] conjI)
      show "Suc j \<le> i" using j(1) i' by simp
      show "i < Suc j + ?n" using j(2) i' by simp
      show "occurs_at word (c # cs) (Suc j)" using j(3) by (simp add: occurs_at_Cons)
      show "(pos + Suc j, pos + Suc j + ?n) \<in> set (finditer word (c # cs) pos)"
        using j(4) by (subst fi) simp
    qed
  qed
qed

subsection \<open>Joining the lines\<close>

lemma join_loop_plain:
  "plain (join_loop ts offset new_text) = plain new_text @ concat (map plain ts)"
  by (induction ts arbitrary: offset new_text) simp_all

lemma join_loop_keeps:
  "sp \<in> set (spans new_text) \<Longrightarrow> sp \<in> set (spans (join_loop ts offset new_text))"
  by (induction ts arbitrary: offset new_text) simp_all

lemma join_loop_shifts:
  "n < length ts \<Longrightarrow> sp \<in> set (spans (ts ! n)) \<Longrightarrow>
   shift (offset + length (concat (map plain (take n ts)))) sp
     \<in> set (spans (join_loop ts offset new_text))"
proof (induction ts arbitrary: n offset new_text)
  case Nil
  then show ?case by simp
next
  case (Cons t ts)
  show ?case
  proof (cases n)
    case 0
    with Cons.prems show ?thesis by (simp add: join_loop_keeps)
  next
    case (Suc n')
    with Cons.prems have "n' < length ts" "sp \<in> set (spans (ts ! n'))" by simp_all
    from Cons.IH [OF this, of "offset + length (plain t)"] Suc show ?thesis
      by (simp add: add.assoc)
  qed
qed

lemma iter_text_nth:
  "k < length lines \<Longrightarrow>
   2 * k < length (iter_text sep lines) \<and> iter_text sep lines ! (2 * k) = lines ! k
   \<and> concat (map plain (take (2 * k) (iter_text sep lines))) =
       concat (map (\<lambda>t. plain t @ plain sep) (take k lines))"
proof (induction sep lines arbitrary: k rule: iter_text.induct)
  case (1 sep)
  then show ?case by simp
next
  case (2 sep line)
  then show ?case by simp
next
  case (3 sep line v va)
  show ?case
  proof (cases k)
    case 0
    then show ?thesis by simp
  next
    case (Suc k')
    with "3.prems" have "k' < length (v # va)" by simp
    from "3.IH" [OF this] Suc show ?thesis by simp
  qed
qed

subsection \<open>The rendered block\<close>

lemma line_plain:
  "plain (highlight_words f style (new_Text (main m))) = row_text m"
  by (simp add: highlight_words_def new_Text_def row_text_def)

lemma line_spans:
  "spans (highlight_words f style (new_Text (main m))) =
     map (\<lambda>(a, b). Span a b style) (finditer f (row_text m) 0)"
  by (simp add: highlight_words_def new_Text_def row_text_def)

lemma newline_plain: "plain (new_Text [CHR 0x0A]) = [CHR 0x0A]"
  by (simp add: new_Text_def strip_control_codes_def)

lemma rich_console_join:
  "plain (rich_console r) =
     concat (map plain (iter_text (new_Text [CHR 0x0A])
       (map (\<lambda>m. highlight_words (render_filter r) ''on yellow'' (new_Text (main m)))
          (render_matches r)))) @ [CHR 0x0A]"
  "spans (rich_console r) =
     spans (join_loop (iter_text (new_Text [CHR 0x0A])
       (map (\<lambda>m. highlight_words (render_filter r) ''on yellow'' (new_Text (main m)))
          (render_matches r))) 0 \<lparr>plain = [], spans = []\<rparr>)"
  by (simp_all add: rich_console_def append_str_def join_def newline_plain join_loop_plain
      strip_control_codes_def)

lemma row_prefix_length:
  "length (concat (map (\<lambda>t. plain t @ plain (new_Text [CHR 0x0A]))
      (take k (map (\<lambda>m. highlight_words f style (new_Text (main m))) ms)))) = row_offset ms k"
  by (simp add: row_offset_def take_map length_concat comp_def line_plain newline_plain)

lemma rich_console_span:
  assumes "k < length (render_matches r)"
    and "(a, b) \<in> set (finditer (render_filter r) (row_text (render_matches r ! k)) 0)"
  shows "Span (row_offset (render_matches r) k + a) (row_offset (render_matches r) k + b) ''on yellow''
           \<in> set (spans (rich_console r))"
proof -
  let ?sep = "new_Text [CHR 0x0A]"
  let ?line = "\<lambda>m. highlight_words (render_filter r) ''on yellow'' (new_Text (main m))"
  let ?lines = "map ?line (render_matches r)"
  let ?its = "iter_text ?sep ?lines"
  from assms(1) have k: "k < length ?lines" by simp
  note nth = iter_text_nth [OF k, of ?sep]
  have "Span a b ''on yellow'' \<in> set (spans (?lines ! k))"
    using assms by (force simp: line_spans)
  then have "Span a b ''on yellow'' \<in> set (spans (?its ! (2 * k)))"
    using nth by simp
  from join_loop_shifts [OF conjunct1 [OF nth] this, of 0 "\<lparr>plain = [], spans = []\<rparr>"]
  have "shift (length (concat (map plain (take (2 * k) ?its)))) (Span a b ''on yellow'')
          \<in> set (spans (rich_console r))"
    by (simp add: rich_console_join)
  moreover have "length (concat (map plain (take (2 * k) ?its))) = row_offset (render_matches r) k"
    using nth row_prefix_length [of k "render_filter r" "''on yellow''" "render_matches r"] by simp
  ultimately show ?thesis by simp
qed

lemma concat_map_nth_split:
  "n < length xs \<Longrightarrow>
   concat (map f xs) = concat (map f (take n xs)) @ f (xs ! n) @ concat (map f (drop (Suc n) xs))"
proof (induction xs arbitrary: n)
  case Nil
  then show ?case by simp
next
  case (Cons x xs)
  then show ?case by (cases n) simp_all
qed

lemma take_drop_mid:
  "xs = pre @ m @ post \<Longrightarrow> take (length m) (drop (length pre) xs) = m"
  by simp

lemma rich_console_row:
  assumes "k < length (render_matches r)"
  shows "take (length (row_text (render_matches r ! k)))
           (drop (row_offset (render_matches r) k) (plain (rich_console r))) =
         row_text (render_matches r ! k)"
proof -
  let ?sep = "new_Text [CHR 0x0A]"
  let ?line = "\<lambda>m. highlight_words (render_filter r) ''on yellow'' (new_Text (main m))"
  let ?lines = "map ?line (render_matches r)"
  let ?its = "iter_text ?sep ?lines"
  from assms have k: "k < length ?lines" by simp
  note nth = iter_text_nth [OF k, of ?sep]
  let ?pre = "concat (map plain (take (2 * k) ?its))"
  let ?post = "concat (map plain (drop (Suc (2 * k)) ?its))"
  have len: "length ?pre = row_offset (render_matches r) k"
    using conjunct2 [OF conjunct2 [OF nth]]
      row_prefix_length [of k "render_filter r" "''on yellow''" "render_matches r"] by simp
  have mid: "plain (?its ! (2 * k)) = row_text (render_matches r ! k)"
    using conjunct1 [OF conjunct2 [OF nth]] assms by (simp add: line_plain)
  have "concat (map plain ?its) = ?pre @ plain (?its ! (2 * k)) @ ?post"
    using conjunct1 [OF nth] by (rule concat_map_nth_split)
  then have "plain (rich_console r) =
      ?pre @ row_text (render_matches r ! k) @ (?post @ [CHR 0x0A])"
    unfolding mid by (simp only: rich_console_join append_assoc)
  then have "take (length (row_text (render_matches r ! k)))
      (drop (length ?pre) (plain (rich_console r))) = row_text (render_matches r ! k)"
    by (rule take_drop_mid)
  then show ?thesis
    by (simp only: len)
qed

lemma span_styled:
  "Span a b style \<in> set (spans t) \<Longrightarrow> a \<le> p \<Longrightarrow> p < b \<Longrightarrow> styled t style p"
  by (auto simp: styled_def list_ex_iff intro!: bexI [of _ "Span a b style"])

text \<open>The renderer reads nothing of a candidate but \<open>main\<close>.\<close>

lemma rich_console_reads_main:
  assumes "render_filter r1 = render_filter r2"
    and "map main (render_matches r1) = map main (render_matches r2)"
  shows "rich_console r1 = rich_console r2"
proof -
  let ?h = "\<lambda>s. highlight_words (render_filter r2) ''on yellow'' (new_Text s)"
  have "map (?h \<circ> main) (render_matches r1) = map (?h \<circ> main) (render_matches r2)"
    using assms(2) by (metis map_map)
  then show ?thesis
    by (simp add: rich_console_def assms(1) comp_def)
qed

text \<open>
  C3, as the code has it. For a non-empty filter \<open>f\<close> and row \<open>k\<close> of the matches, a
  candidate with no explicit highlight ranges, whose text \<open>m\<close> (the candidate's \<open>main\<close>,
  less the control characters \<open>Text\<close> strips) stands in the block at the row's offset:
  every occurrence of \<open>f\<close> in \<open>m\<close> is a highlighted span itself or starts inside the
  highlighted span of an earlier occurrence, so at least its first character is
  highlighted, in the one style \<open>on yellow\<close>, with case-sensitive matching. When no two
  occurrences of \<open>f\<close> in \<open>m\<close> overlap, every occurrence is a span and each of its
  characters is highlighted.
\<close>

theorem rich_console_highlights:
  assumes "render_filter r \<noteq> []"
    and "k < length (render_matches r)"
    and "highlight_ranges (render_matches r ! k) = []"
    and "occurs_at (render_filter r) (row_text (render_matches r ! k)) i"
  shows "take (length (row_text (render_matches r ! k)))
           (drop (row_offset (render_matches r) k) (plain (rich_console r))) =
         row_text (render_matches r ! k)
       \<and> (\<exists>j\<le>i. i < j + length (render_filter r)
            \<and> occurs_at (render_filter r) (row_text (render_matches r ! k)) j
            \<and> Span (row_offset (render_matches r) k + j)
                    (row_offset (render_matches r) k + j + length (render_filter r)) ''on yellow''
                 \<in> set (spans (rich_console r)))
       \<and> styled (rich_console r) ''on yellow'' (row_offset (render_matches r) k + i)
       \<and> ((\<forall>a b. occurs_at (render_filter r) (row_text (render_matches r ! k)) a
                 \<and> occurs_at (render_filter r) (row_text (render_matches r ! k)) b
                 \<and> a < b \<longrightarrow> a + length (render_filter r) \<le> b) \<longrightarrow>
            Span (row_offset (render_matches r) k + i)
                 (row_offset (render_matches r) k + i + length (render_filter r)) ''on yellow''
              \<in> set (spans (rich_console r))
          \<and> (\<forall>p. i \<le> p \<and> p < i + length (render_filter r) \<longrightarrow>
                styled (rich_console r) ''on yellow'' (row_offset (render_matches r) k + p)))"
proof -
  let ?f = "render_filter r" and ?m = "row_text (render_matches r ! k)"
  let ?off = "row_offset (render_matches r) k"
  let ?block = "rich_console r"
  note occ = assms(4)
  from finditer_covers [OF assms(1) occ, of 0]
  obtain j where j: "j \<le> i" "i < j + length ?f" "occurs_at ?f ?m j"
    "(j, j + length ?f) \<in> set (finditer ?f ?m 0)"
    by auto
  have sp: "Span (?off + j) (?off + j + length ?f) ''on yellow'' \<in> set (spans ?block)"
    using rich_console_span [OF assms(2) j(4)] by (simp add: add.assoc)
  have st: "styled ?block ''on yellow'' (?off + i)"
    using j(1,2) by (intro span_styled [OF sp]) simp_all
  have apart: "Span (?off + i) (?off + i + length ?f) ''on yellow'' \<in> set (spans ?block)
      \<and> (\<forall>p. i \<le> p \<and> p < i + length ?f \<longrightarrow> styled ?block ''on yellow'' (?off + p))"
    if no: "\<forall>a b. occurs_at ?f ?m a \<and> occurs_at ?f ?m b \<and> a < b \<longrightarrow> a + length ?f \<le> b"
  proof -
    have "j = i"
    proof (rule ccontr)
      assume "j \<noteq> i"
      with j(1) have "j < i" by simp
      with no j(3) occ have "j + length ?f \<le> i" by blast
      with j(2) show False by simp
    qed
    with sp have here: "Span (?off + i) (?off + i + length ?f) ''on yellow'' \<in> set (spans ?block)"
      by simp
    moreover have "styled ?block ''on yellow'' (?off + p)" if "i \<le> p \<and> p < i + length ?f" for p
      using that by (intro span_styled [OF here]) simp_all
    ultimately show ?thesis by blast
  qed
  from rich_console_row [OF assms(2)] j(1,2,3) sp st apart show ?thesis
    by blast
qed

text \<open>
  The filter \<open>l\<close> over \<open>hello\<close> and \<open>help\<close>: both occurrences in \<open>hello\<close> are spans, not
  only the first, and the one in \<open>help\<close> is a span at the second row's offset 6.
\<close>

theorem rich_console_highlights_witness:
  "occurs_at ''l'' (row_text (take 2 demo_candidates ! 0)) 3
   \<and> Span 2 3 ''on yellow'' \<in> set (spans (rich_console
        \<lparr>render_filter = ''l'', render_matches = take 2 demo_candidates, highlight_index = 0\<rparr>))
   \<and> Span 3 4 ''on yellow'' \<in> set (spans (rich_console
        \<lparr>render_filter = ''l'', render_matches = take 2 demo_candidates, highlight_index = 0\<rparr>))
   \<and> styled (rich_console
        \<lparr>render_filter = ''l'', render_matches = take 2 demo_candidates, highlight_index = 0\<rparr>)
        ''on yellow'' 3
   \<and> row_offset (take 2 demo_candidates) 1 = 6
   \<and> Span 8 9 ''on yellow'' \<in> set (spans (rich_console
        \<lparr>render_filter = ''l'', render_matches = take 2 demo_candidates, highlight_index = 0\<rparr>))"
  using rich_console_highlights [of
      "\<lparr>render_filter = ''l'', render_matches = take 2 demo_candidates, highlight_index = 0\<rparr>" 0 3]
    rich_console_highlights [of
      "\<lparr>render_filter = ''l'', render_matches = take 2 demo_candidates, highlight_index = 0\<rparr>" 1 2]
  by (simp add: demo_candidates_def occurs_at_def row_text_def row_offset_def
      strip_control_codes_def rich_console_def join_def new_Text_def highlight_words_def
      append_str_def styled_def)

text \<open>
  C3, as the claim states it, fails in two places. Where occurrences overlap: \<open>aa\<close>
  occurs in \<open>aaa\<close> at index 1, but the only span is the one from 0 to 2 and index 2 is
  not highlighted. And where \<open>main\<close> holds a control character that \<open>Text\<close> strips: a
  carriage return occurs in \<open>a\<close>, carriage return, \<open>b\<close> at index 1, but the rendered line
  is \<open>ab\<close> and nothing in it is highlighted.
\<close>

theorem rich_console_overlap_counterexample:
  "occurs_at ''aa'' ''aaa'' 1
   \<and> rich_console \<lparr>render_filter = ''aa'', render_matches =
        [\<lparr>main = ''aaa'', left_meta = [], right_meta = [], highlight_ranges = []\<rparr>],
        highlight_index = 0\<rparr> = \<lparr>plain = ''aaa'' @ [CHR 0x0A], spans = [Span 0 2 ''on yellow'']\<rparr>
   \<and> \<not> styled (rich_console \<lparr>render_filter = ''aa'', render_matches =
        [\<lparr>main = ''aaa'', left_meta = [], right_meta = [], highlight_ranges = []\<rparr>],
        highlight_index = 0\<rparr>) ''on yellow'' 2
   \<and> occurs_at [CHR 0x0D] (''a'' @ [CHR 0x0D] @ ''b'') 1
   \<and> rich_console \<lparr>render_filter = [CHR 0x0D], render_matches =
        [\<lparr>main = ''a'' @ [CHR 0x0D] @ ''b'', left_meta = [], right_meta = [],
          highlight_ranges = []\<rparr>],
        highlight_index = 0\<rparr> = \<lparr>plain = ''ab'' @ [CHR 0x0A], spans = []\<rparr>"
  by (simp add: occurs_at_def rich_console_def join_def new_Text_def highlight_words_def
      append_str_def strip_control_codes_def styled_def)

text \<open>
  C2. A candidate \<open>hello\<close> with the explicit range from 0 to 1, rendered under the filter
  \<open>ll\<close>: the only span is the substring match from 2 to 4. The explicit range is not
  highlighted and the substring search is still done.
\<close>

theorem rich_console_ignores_highlight_ranges:
  "rich_console \<lparr>render_filter = ''ll'', render_matches =
       [\<lparr>main = ''hello'', left_meta = [], right_meta = [], highlight_ranges = [(0, 1)]\<rparr>],
       highlight_index = 0\<rparr> =
     \<lparr>plain = ''hello'' @ [CHR 0x0A], spans = [Span 2 4 ''on yellow'']\<rparr>"
  by (simp add: rich_console_def join_def new_Text_def highlight_words_def
      append_str_def strip_control_codes_def)

text \<open>
  C5. A candidate \<open>apple\<close> with a left and a right column: the rendered line is \<open>apple\<close>
  and the newline, and holds neither column.
\<close>

theorem rich_console_omits_meta_columns:
  "rich_console \<lparr>render_filter = ''app'', render_matches =
       [\<lparr>main = ''apple'', left_meta = ''>'', right_meta = ''fruit'', highlight_ranges = []\<rparr>],
       highlight_index = 0\<rparr> =
     \<lparr>plain = ''apple'' @ [CHR 0x0A], spans = [Span 0 3 ''on yellow'']\<rparr>"
  by (simp add: rich_console_def join_def new_Text_def highlight_words_def
      append_str_def strip_control_codes_def)

section \<open>Measuring\<close>

text \<open>The loop keeps the largest combined width seen, or its starting value.\<close>

lemma measure_loop_Max:
  "measure_loop get ms mx = Max (insert mx (combined_width get ` set ms))"
proof (induction ms arbitrary: mx)
  case Nil
  then show ?case by simp
next
  case (Cons m ms)
  have "Max (insert (max (combined_width get m) mx) (combined_width get ` set ms)) =
        Max (insert mx (insert (combined_width get m) (combined_width get ` set ms)))"
    by (cases "set ms = {}") (simp_all add: max.commute max.left_commute)
  with Cons.IH [of "max (combined_width get m) mx"] show ?case
    by (simp add: combined_width_def)
qed

text \<open>
  C4, as the code has it. The measurement returned has minimum exactly 10, and its maximum
  is exactly the largest combined width of the three columns over the matches, 0 when
  there are none. The maximum is not raised to the floor: it is \<open>max(10, largest)\<close>
  exactly when the largest combined width is at least 10.
\<close>

theorem rich_measure_bounds:
  "minimum (rich_measure get r) = 10
   \<and> maximum (rich_measure get r) = Max (insert 0 (combined_width get ` set (render_matches r)))
   \<and> (maximum (rich_measure get r) = max 10 (Max (insert 0 (combined_width get ` set (render_matches r))))
        \<longleftrightarrow> 10 \<le> Max (insert 0 (combined_width get ` set (render_matches r))))"
  by (auto simp: rich_measure_def measure_loop_Max)

text \<open>
  The two cases of the specification, one cell per character: a combined width of 10
  gives the maximum 10, and a widest row of 15 gives 15.
\<close>

theorem rich_measure_bounds_witness:
  "rich_measure demo_get \<lparr>render_filter = ''a'', render_matches =
       [\<lparr>main = ''apple'', left_meta = [], right_meta = ''fruit'', highlight_ranges = []\<rparr>],
       highlight_index = 0\<rparr> = \<lparr>minimum = 10, maximum = 10\<rparr>
   \<and> rich_measure demo_get \<lparr>render_filter = ''a'', render_matches =
       [\<lparr>main = ''apple'', left_meta = ''>'', right_meta = ''fruit'', highlight_ranges = []\<rparr>,
        \<lparr>main = ''pineapple'', left_meta = ''>'', right_meta = ''fruit'', highlight_ranges = []\<rparr>],
       highlight_index = 0\<rparr> = \<lparr>minimum = 10, maximum = 15\<rparr>"
  using rich_measure_bounds [of demo_get "\<lparr>render_filter = ''a'', render_matches =
       [\<lparr>main = ''apple'', left_meta = [], right_meta = ''fruit'', highlight_ranges = []\<rparr>],
       highlight_index = 0\<rparr>"]
  by (simp add: rich_measure_def demo_get_def)

text \<open>
  C4, as the claim states it, fails below the floor: for one candidate \<open>ab\<close> the combined
  width is 2 and the measurement is \<open>Measurement(10, 2)\<close>, whose maximum is 2 and not
  \<open>max(10, 2)\<close>; for no matches it is \<open>Measurement(10, 0)\<close>.
\<close>

theorem rich_measure_floor_counterexample:
  "rich_measure demo_get \<lparr>render_filter = ''a'', render_matches =
       [\<lparr>main = ''ab'', left_meta = [], right_meta = [], highlight_ranges = []\<rparr>],
       highlight_index = 0\<rparr> = \<lparr>minimum = 10, maximum = 2\<rparr>
   \<and> combined_width demo_get \<lparr>main = ''ab'', left_meta = [], right_meta = [], highlight_ranges = []\<rparr> = 2
   \<and> maximum (rich_measure demo_get \<lparr>render_filter = ''a'', render_matches =
       [\<lparr>main = ''ab'', left_meta = [], right_meta = [], highlight_ranges = []\<rparr>],
       highlight_index = 0\<rparr>) \<noteq> max 10 2
   \<and> rich_measure demo_get \<lparr>render_filter = ''a'', render_matches = [], highlight_index = 0\<rparr> =
       \<lparr>minimum = 10, maximum = 0\<rparr>"
  by (simp add: rich_measure_def demo_get_def combined_width_def)

section \<open>The highlight index\<close>

text \<open>
  C10. Two renderables with the same filter and the same matches give the same rendered
  block and the same measurement, whatever their \<open>highlight_index\<close>; and \<open>render\<close> always
  passes 0. No row is styled by the index.
\<close>

theorem highlight_index_no_effect:
  "(render_filter r1 = render_filter r2 \<and> render_matches r1 = render_matches r2 \<longrightarrow>
      rich_console r1 = rich_console r2 \<and> rich_measure get r1 = rich_measure get r2)
   \<and> (\<forall>d. render w = Inr d \<longrightarrow> highlight_index d = 0)"
  by (auto simp: rich_console_def rich_measure_def render_def split: option.splits)

text \<open>The same filter and matches with the index 0 and with the index 2.\<close>

theorem highlight_index_no_effect_witness:
  "rich_console \<lparr>render_filter = ''hel'', render_matches = demo_candidates, highlight_index = 0\<rparr> =
   rich_console \<lparr>render_filter = ''hel'', render_matches = demo_candidates, highlight_index = 2\<rparr>
   \<and> rich_measure demo_get \<lparr>render_filter = ''hel'', render_matches = demo_candidates, highlight_index = 0\<rparr> =
     rich_measure demo_get \<lparr>render_filter = ''hel'', render_matches = demo_candidates, highlight_index = 2\<rparr>
   \<and> spans (rich_console \<lparr>render_filter = ''hel'', render_matches = demo_candidates, highlight_index = 2\<rparr>) =
     [Span 0 3 ''on yellow'', Span 6 9 ''on yellow'']"
  using highlight_index_no_effect [of
      "\<lparr>render_filter = ''hel'', render_matches = demo_candidates, highlight_index = 0\<rparr>"
      "\<lparr>render_filter = ''hel'', render_matches = demo_candidates, highlight_index = 2\<rparr>" demo_get
      demo_world]
  by (simp add: demo_candidates_def rich_console_def join_def new_Text_def highlight_words_def
      append_str_def strip_control_codes_def)

end
